theory Spec2Isabelle
  imports Main
begin

section \<open>The gopi application framework: module lists, instance building, run and teardown\<close>

text \<open>
  The development embeds the file that declares \<^verbatim>\<open>AppConfig\<close> and \<^verbatim>\<open>AppInstance\<close>
  (package \<^verbatim>\<open>gopi\<close>): \<^verbatim>\<open>NewAppConfig\<close>, \<^verbatim>\<open>NewAppInstance\<close>, \<^verbatim>\<open>AppInstance.Run\<close>,
  \<^verbatim>\<open>AppInstance.Close\<close>, \<^verbatim>\<open>AppendModulesByName\<close>, \<^verbatim>\<open>appendModules\<close>, \<^verbatim>\<open>inModules\<close>,
  \<^verbatim>\<open>setModuleInstance\<close> and \<^verbatim>\<open>getTestlessArguments\<close>.
\<close>

subsection \<open>Data model\<close>

text \<open>
  A \<^verbatim>\<open>*Module\<close> is the address of a registered module descriptor. Go compares two such
  pointers by address (\<^verbatim>\<open>module == other\<close>), which is equality of the addresses here;
  the descriptor itself is read through a heap, a function from addresses to descriptors.
\<close>

type_synonym ModulePtr = nat

text \<open>
  \<^verbatim>\<open>ModuleType\<close> is an unsigned integer type whose declaration is in a file that is not
  part of the sources at hand. The constants are the ones the code names; every other value
  of the type is \<open>MODULE_TYPE_UNLISTED n\<close>.
\<close>

datatype ModuleType =
    MODULE_TYPE_NONE
  | MODULE_TYPE_OTHER
  | MODULE_TYPE_LOGGER
  | MODULE_TYPE_HARDWARE
  | MODULE_TYPE_DISPLAY
  | MODULE_TYPE_GRAPHICS
  | MODULE_TYPE_FONTS
  | MODULE_TYPE_LAYOUT
  | MODULE_TYPE_GPIO
  | MODULE_TYPE_I2C
  | MODULE_TYPE_SPI
  | MODULE_TYPE_TIMER
  | MODULE_TYPE_LIRC
  | MODULE_TYPE_INPUT
  | MODULE_TYPE_SERVICE
  | MODULE_TYPE_CLIENT
  | MODULE_TYPE_UNLISTED nat

text \<open>
  Error values. \<open>ErrAppError\<close> is the package's error variable; the next four are the
  values \<^verbatim>\<open>fmt.Errorf\<close> builds in \<^verbatim>\<open>setModuleInstance\<close> and \<^verbatim>\<open>NewAppInstance\<close>, keeping
  what the message is formatted from; \<open>Foreign n\<close> is an error made outside this file
  (by a hook, a task, a driver's \<^verbatim>\<open>Close\<close>, the flag parser or the module registry).
\<close>

datatype error =
    ErrAppError
  | DuplicateName string
  | DuplicateType ModuleType
  | NewReturnNil string
  | CannotCast ModulePtr ModuleType
  | Foreign nat

subsection \<open>Assembling the module list\<close>

text \<open>\<^verbatim>\<open>inModules\<close>: the loop returns true at the first element equal to \<open>other\<close>.\<close>

fun inModules :: "ModulePtr list \<Rightarrow> ModulePtr \<Rightarrow> bool" where
  "inModules [] other = False"
| "inModules (module # modules) other =
     (if module = other then True else inModules modules other)"

text \<open>
  \<^verbatim>\<open>appendModules\<close>: each element of \<open>others\<close> is tested against the list as it has grown
  so far, and appended at the end when it is not in it.
\<close>

fun appendModules :: "ModulePtr list \<Rightarrow> ModulePtr list \<Rightarrow> ModulePtr list" where
  "appendModules modules [] = modules"
| "appendModules modules (other # others) =
     (if inModules modules other then appendModules modules others
      else appendModules (modules @ [other]) others)"

text \<open>
  \<^verbatim>\<open>AppendModulesByName\<close>. \<^verbatim>\<open>ModuleWithDependencies\<close> belongs to the module registry, which
  is not in the sources at hand: it is the parameter \<open>mwd\<close>, giving for a name either an
  error or the list of the module and its dependencies. A nil slice is the empty list.
\<close>

fun AppendModulesByName ::
  "(string \<Rightarrow> error + ModulePtr list) \<Rightarrow> ModulePtr list \<Rightarrow> string list \<Rightarrow> error + ModulePtr list"
where
  "AppendModulesByName mwd modules [] = Inr modules"
| "AppendModulesByName mwd modules (name # names) =
     (case mwd name of
        Inl err \<Rightarrow> Inl err
      | Inr module_array \<Rightarrow> AppendModulesByName mwd (appendModules modules module_array) names)"

subsection \<open>Drivers, flags, configurations and instances\<close>

text \<open>
  \<^verbatim>\<open>Driver\<close> is an interface; a nil interface value is \<open>None\<close> of \<open>Driver option\<close>. This
  file does two things with a driver: it calls \<^verbatim>\<open>Close()\<close>, whose returned error is
  \<open>close_result\<close>, and it asserts the driver to the interface of a module type
  (\<^verbatim>\<open>driver.(Logger)\<close>, \<^verbatim>\<open>driver.(Hardware)\<close>, ...), which succeeds when that module type is
  among \<open>interfaces\<close>. \<open>handle\<close> tells one driver from another.
\<close>

record Driver =
  handle :: nat
  close_result :: "error option"
  interfaces :: "ModuleType list"

text \<open>
  \<^verbatim>\<open>Flags\<close> and its methods are declared in a file that is not part of the sources at
  hand, so the flag set is a type parameter \<open>'f\<close> and the methods used here are parameters:
  \<^verbatim>\<open>NewFlags(name)\<close>, \<^verbatim>\<open>FlagBool(name, value, usage)\<close> (giving the flag set with the flag
  defined), \<^verbatim>\<open>Parsed()\<close>, \<^verbatim>\<open>Parse(args)\<close> (giving the error, if any, and the flag set after
  parsing), \<^verbatim>\<open>GetBool(name)\<close> (the value, and whether the flag exists) and \<^verbatim>\<open>Name()\<close>.
\<close>

record 'f FlagsApi =
  NewFlags :: "string \<Rightarrow> 'f"
  FlagBool :: "'f \<Rightarrow> string \<Rightarrow> bool \<Rightarrow> string \<Rightarrow> 'f"
  Parsed :: "'f \<Rightarrow> bool"
  Parse :: "'f \<Rightarrow> string list \<Rightarrow> error option \<times> 'f"
  GetBool :: "'f \<Rightarrow> string \<Rightarrow> bool \<times> bool"
  FlagsName :: "'f \<Rightarrow> string"

text \<open>\<^verbatim>\<open>AppConfig\<close>. A nil \<^verbatim>\<open>AppFlags\<close> pointer is \<open>None\<close>.\<close>

record 'f AppConfig =
  Modules :: "ModulePtr list"
  AppArgs :: "string list"
  AppFlags :: "'f option"
  Debug :: bool
  Verbose :: bool
  Service :: string

text \<open>
  \<^verbatim>\<open>AppInstance\<close>. Its field \<^verbatim>\<open>AppFlags\<close> is \<open>InstanceFlags\<close> here (the name is taken by the
  configuration's field); \<^verbatim>\<open>sigchan\<close> is left out, as signals are not modelled. The maps
  \<^verbatim>\<open>byname\<close> and \<^verbatim>\<open>bytype\<close> are partial functions, a nil map being the empty one.
\<close>

record 'f AppInstance =
  InstanceFlags :: "'f option"
  Logger :: "Driver option"
  Hardware :: "Driver option"
  Display :: "Driver option"
  Graphics :: "Driver option"
  Input :: "Driver option"
  Fonts :: "Driver option"
  Layout :: "Driver option"
  Timer :: "Driver option"
  GPIO :: "Driver option"
  I2C :: "Driver option"
  SPI :: "Driver option"
  LIRC :: "Driver option"
  debug :: bool
  verbose :: bool
  service :: string
  modules :: "ModulePtr list"
  byname :: "string \<rightharpoonup> Driver"
  bytype :: "ModuleType \<rightharpoonup> Driver"
  byorder :: "Driver list"

text \<open>
  \<^verbatim>\<open>Module\<close>, the descriptor a \<^verbatim>\<open>*Module\<close> points to. A nil hook is \<open>None\<close>. The
  \<^verbatim>\<open>Config\<close> hook returns nothing and acts on the configuration it is given a pointer to,
  so it is a function from the configuration to the configuration it leaves. The \<^verbatim>\<open>New\<close>
  hook reads the instance under construction and returns the pair (driver, error); the
  \<^verbatim>\<open>Run\<close> hook reads the instance and the driver and returns an error.
\<close>

record 'f Module =
  Name :: string
  Type :: ModuleType
  Requires :: "string list"
  Config :: "('f AppConfig \<Rightarrow> 'f AppConfig) option"
  New :: "('f AppInstance \<Rightarrow> Driver option \<times> error option) option"
  Run :: "('f AppInstance \<Rightarrow> Driver option \<Rightarrow> error option) option"

text \<open>
  What building and teardown do to the world outside the instance, in the order it
  happens: a call of a module's \<^verbatim>\<open>New\<close> hook, a call of a driver's \<^verbatim>\<open>Close\<close>, a call of
  \<^verbatim>\<open>Logger.Error\<close> reporting an error. (Debug messages are not recorded.)
\<close>

datatype call = NewCalled ModulePtr | CloseCalled Driver | ErrorLogged error

text \<open>
  A function either returns or panics. The only panic this file can raise by itself is
  the call of a method on the nil \<^verbatim>\<open>Logger\<close>.
\<close>

datatype 'a outcome = Return 'a | Panic

subsection \<open>Registering a driver\<close>

text \<open>The type assertion \<^verbatim>\<open>driver.(T)\<close>: the driver, or nil when it fails.\<close>

definition assert_to :: "ModuleType \<Rightarrow> Driver \<Rightarrow> Driver option" where
  "assert_to t driver = (if t \<in> set (interfaces driver) then Some driver else None)"

text \<open>The error of a case of the switch: none when the assertion gave a driver.\<close>

definition cast_result :: "ModulePtr \<Rightarrow> ModuleType \<Rightarrow> Driver option \<Rightarrow> error option" where
  "cast_result module t v = (case v of None \<Rightarrow> Some (CannotCast module t) | Some _ \<Rightarrow> None)"

text \<open>
  The switch at the end of \<^verbatim>\<open>setModuleInstance\<close>: for a module type that has an accessor
  field, the field is assigned the result of the assertion (nil when it fails), and a
  failed assertion is an error; the other module types do nothing.
\<close>

definition set_accessor ::
  "ModulePtr \<Rightarrow> ModuleType \<Rightarrow> Driver \<Rightarrow> 'f AppInstance \<Rightarrow> error option \<times> 'f AppInstance"
where
  "set_accessor module t driver this =
    (let v = assert_to t driver in
     case t of
       MODULE_TYPE_LOGGER \<Rightarrow> (cast_result module t v, this\<lparr>Logger := v\<rparr>)
     | MODULE_TYPE_HARDWARE \<Rightarrow> (cast_result module t v, this\<lparr>Hardware := v\<rparr>)
     | MODULE_TYPE_DISPLAY \<Rightarrow> (cast_result module t v, this\<lparr>Display := v\<rparr>)
     | MODULE_TYPE_GRAPHICS \<Rightarrow> (cast_result module t v, this\<lparr>Graphics := v\<rparr>)
     | MODULE_TYPE_FONTS \<Rightarrow> (cast_result module t v, this\<lparr>Fonts := v\<rparr>)
     | MODULE_TYPE_LAYOUT \<Rightarrow> (cast_result module t v, this\<lparr>Layout := v\<rparr>)
     | MODULE_TYPE_GPIO \<Rightarrow> (cast_result module t v, this\<lparr>GPIO := v\<rparr>)
     | MODULE_TYPE_I2C \<Rightarrow> (cast_result module t v, this\<lparr>I2C := v\<rparr>)
     | MODULE_TYPE_SPI \<Rightarrow> (cast_result module t v, this\<lparr>SPI := v\<rparr>)
     | MODULE_TYPE_TIMER \<Rightarrow> (cast_result module t v, this\<lparr>Timer := v\<rparr>)
     | MODULE_TYPE_LIRC \<Rightarrow> (cast_result module t v, this\<lparr>LIRC := v\<rparr>)
     | MODULE_TYPE_INPUT \<Rightarrow> (cast_result module t v, this\<lparr>Input := v\<rparr>)
     | _ \<Rightarrow> (None, this))"

text \<open>
  The test \<^verbatim>\<open>setModuleInstance\<close> makes before it registers by type: every module type but
  none, other, service and client admits one driver only.
\<close>

definition singleton_type :: "ModuleType \<Rightarrow> bool" where
  "singleton_type t =
     (t \<noteq> MODULE_TYPE_NONE \<and> t \<noteq> MODULE_TYPE_OTHER \<and>
      t \<noteq> MODULE_TYPE_SERVICE \<and> t \<noteq> MODULE_TYPE_CLIENT)"

text \<open>
  \<^verbatim>\<open>setModuleInstance\<close>: the returned error (if any) and the instance as the call leaves
  it. The steps are in the order of the code: by name (returning at a duplicate), by type
  (returning at a duplicate), the append to \<^verbatim>\<open>byorder\<close>, then the accessor.
\<close>

definition setModuleInstance ::
  "(ModulePtr \<Rightarrow> 'f Module) \<Rightarrow> 'f AppInstance \<Rightarrow> ModulePtr \<Rightarrow> Driver
     \<Rightarrow> error option \<times> 'f AppInstance"
where
  "setModuleInstance heap this module driver =
    (case byname this (Name (heap module)) of
       Some _ \<Rightarrow> (Some (DuplicateName (Name (heap module))), this)
     | None \<Rightarrow>
        (let this1 = this\<lparr>byname := (byname this)(Name (heap module) \<mapsto> driver)\<rparr>;
             t = Type (heap module)
         in if singleton_type t \<and> bytype this1 t \<noteq> None
            then (Some (DuplicateType t), this1)
            else
              (let this2 = (if singleton_type t
                            then this1\<lparr>bytype := (bytype this1)(t \<mapsto> driver)\<rparr>
                            else this1);
                   this3 = this2\<lparr>byorder := byorder this2 @ [driver]\<rparr>
               in set_accessor module t driver this3)))"

subsection \<open>Building the instance\<close>

text \<open>
  The instance \<^verbatim>\<open>NewAppInstance\<close> creates before its loop: the debug and verbose settings
  come from the parsed flags when the flag exists, the service name from the configuration
  or else from the flag set's name, and the maps and the creation-order list are empty.
\<close>

definition new_instance :: "'f FlagsApi \<Rightarrow> 'f AppConfig \<Rightarrow> 'f \<Rightarrow> 'f AppInstance" where
  "new_instance api config flags =
    \<lparr> InstanceFlags = Some flags,
      Logger = None, Hardware = None, Display = None, Graphics = None, Input = None,
      Fonts = None, Layout = None, Timer = None, GPIO = None, I2C = None, SPI = None,
      LIRC = None,
      debug = (case GetBool api flags ''debug'' of (v, exists) \<Rightarrow> if exists then v else Debug config),
      verbose = (case GetBool api flags ''verbose'' of (v, exists) \<Rightarrow> if exists then v else Verbose config),
      service = (if Service config \<noteq> [] then Service config else FlagsName api flags),
      modules = Modules config,
      byname = Map.empty,
      bytype = Map.empty,
      byorder = [] \<rparr>"

text \<open>
  The loop of \<^verbatim>\<open>NewAppInstance\<close> over the modules. \<open>once\<close> tells whether the
  \<^verbatim>\<open>sync.Once\<close> has run; it runs at the start of the first iteration that finds a logger.
  A hook that returns an error ends the build with that error, whatever driver came with
  it; a nil driver without an error ends it with an error naming the module; when
  \<^verbatim>\<open>setModuleInstance\<close> fails the driver is closed, a failure of that \<^verbatim>\<open>Close\<close> is reported
  through \<^verbatim>\<open>this.Logger\<close> (a panic when it is nil), and the build ends with the error of
  \<^verbatim>\<open>setModuleInstance\<close>.
\<close>

fun construct_modules ::
  "(ModulePtr \<Rightarrow> 'f Module) \<Rightarrow> ModulePtr list \<Rightarrow> 'f AppInstance \<Rightarrow> bool \<Rightarrow> call list
     \<Rightarrow> (error + 'f AppInstance \<times> bool) outcome \<times> call list"
where
  "construct_modules heap [] this once tr = (Return (Inr (this, once)), tr)"
| "construct_modules heap (module # rest) this once tr =
    (let once1 = (once \<or> Logger this \<noteq> None) in
     case New (heap module) of
       None \<Rightarrow> construct_modules heap rest this once1 tr
     | Some new \<Rightarrow>
        (case new this of
           (_, Some err) \<Rightarrow> (Return (Inl err), tr @ [NewCalled module])
         | (None, None) \<Rightarrow>
             (Return (Inl (NewReturnNil (Name (heap module)))), tr @ [NewCalled module])
         | (Some driver, None) \<Rightarrow>
             (case setModuleInstance heap this module driver of
                (None, this') \<Rightarrow>
                  construct_modules heap rest this' once1 (tr @ [NewCalled module])
              | (Some err, this') \<Rightarrow>
                  (case close_result driver of
                     None \<Rightarrow>
                       (Return (Inl err), tr @ [NewCalled module, CloseCalled driver])
                   | Some cerr \<Rightarrow>
                       (case Logger this' of
                          None \<Rightarrow> (Panic, tr @ [NewCalled module, CloseCalled driver])
                        | Some _ \<Rightarrow>
                            (Return (Inl err),
                             tr @ [NewCalled module, CloseCalled driver, ErrorLogged cerr]))))))"

text \<open>
  \<^verbatim>\<open>NewAppInstance\<close>: the pair (instance, error) it returns is a sum, and the calls it makes
  are added to the record of calls. After the loop the \<^verbatim>\<open>sync.Once\<close> runs if it has not
  yet, calling \<^verbatim>\<open>this.Logger.Debug\<close> without a test for nil.
\<close>

definition NewAppInstance ::
  "'f FlagsApi \<Rightarrow> (ModulePtr \<Rightarrow> 'f Module) \<Rightarrow> 'f AppConfig \<Rightarrow> call list
     \<Rightarrow> (error + 'f AppInstance) outcome \<times> call list"
where
  "NewAppInstance api heap config tr =
    (case AppFlags config of
       None \<Rightarrow> (Return (Inl ErrAppError), tr)
     | Some flags \<Rightarrow>
        (case (if Parsed api flags = False then Parse api flags (AppArgs config)
               else (None, flags)) of
           (Some err, _) \<Rightarrow> (Return (Inl err), tr)
         | (None, flags1) \<Rightarrow>
            (case construct_modules heap (Modules config) (new_instance api config flags1) False tr of
               (Return (Inl err), tr') \<Rightarrow> (Return (Inl err), tr')
             | (Panic, tr') \<Rightarrow> (Panic, tr')
             | (Return (Inr (this, once)), tr') \<Rightarrow>
                 (if \<not> once \<and> Logger this = None then (Panic, tr')
                  else (Return (Inr this), tr')))))"

subsection \<open>Teardown\<close>

text \<open>
  The loop of \<^verbatim>\<open>Close\<close>: \<^verbatim>\<open>for i := len(this.byorder); i > 0; i--\<close>, closing
  \<^verbatim>\<open>this.byorder[i-1]\<close> and reporting a failure through the logger, then going on. The
  first argument is \<open>i\<close>, which never exceeds the length of the list.
\<close>

fun close_drivers :: "nat \<Rightarrow> Driver list \<Rightarrow> call list \<Rightarrow> call list" where
  "close_drivers 0 drivers tr = tr"
| "close_drivers (Suc n) drivers tr =
    (let driver = drivers ! n in
     close_drivers n drivers
       (tr @ CloseCalled driver #
          (case close_result driver of None \<Rightarrow> [] | Some err \<Rightarrow> [ErrorLogged err])))"

text \<open>
  \<^verbatim>\<open>AppInstance.Close\<close>: the returned error (always nil), the instance as it is left and
  the record of calls. The first statement calls \<^verbatim>\<open>this.Logger.Debug\<close> without a test for
  nil.
\<close>

definition AppInstance_Close ::
  "'f AppInstance \<Rightarrow> call list \<Rightarrow> (error option) outcome \<times> 'f AppInstance \<times> call list"
where
  "AppInstance_Close this tr =
    (case Logger this of
       None \<Rightarrow> (Panic, this, tr)
     | Some _ \<Rightarrow>
        (Return None,
         this\<lparr> bytype := Map.empty, byname := Map.empty, byorder := [],
               Layout := None, Display := None, Graphics := None, Fonts := None,
               Hardware := None, Logger := None, Timer := None, Input := None,
               I2C := None, GPIO := None, SPI := None, LIRC := None \<rparr>,
         close_drivers (length (byorder this)) (byorder this) tr))"

subsection \<open>Building the configuration\<close>



definition DEFAULT_RPC_SERVICE :: string where
  "DEFAULT_RPC_SERVICE = ''gopi''"




subsection \<open>Running the tasks\<close>

text \<open>
  The first loop of \<^verbatim>\<open>Run\<close>: the \<^verbatim>\<open>Run\<close> hook of each module that has one is called with
  the driver registered under the module's name (nil when there is none); the first error
  is returned.
\<close>

fun run_hooks ::
  "(ModulePtr \<Rightarrow> 'f Module) \<Rightarrow> 'f AppInstance \<Rightarrow> ModulePtr list \<Rightarrow> error option"
where
  "run_hooks heap this [] = None"
| "run_hooks heap this (module # rest) =
     (case Run (heap module) of
        None \<Rightarrow> run_hooks heap this rest
      | Some hook \<Rightarrow>
         (case hook this (byname this (Name (heap module))) of
            Some err \<Rightarrow> Some err
          | None \<Rightarrow> run_hooks heap this rest))"

text \<open>
  After the hooks, \<^verbatim>\<open>Run\<close> is several threads of control: the calling thread, which
  calls the main task, then waits for the wait group, then returns the main task's error;
  the goroutine that receives on \<^verbatim>\<open>channels[0]\<close> and then sends \<^verbatim>\<open>DONE\<close> on
  \<^verbatim>\<open>channels[1]\<close>, \<^verbatim>\<open>channels[2]\<close>, ... in turn (the coordinator); and one goroutine for each
  background task. Their positions:
\<close>

datatype caller_pc = InMainTask | InWait | Returned "error option"

datatype coordinator_pc = Receiving | Sending nat | Finished | NotStarted

datatype background_pc = InBackgroundTask | BackgroundDone

text \<open>What has happened, in order.\<close>

datatype run_event =
    MainSignalled
  | MainTaskReturned "error option"
  | DoneSent nat
  | BackgroundTaskReturned nat "error option"
  | RunReturned "error option"

record run_state =
  caller :: caller_pc
  coordinator :: coordinator_pc
  background :: "background_pc list"
  crashed :: bool
  history :: "run_event list"

text \<open>
  The scheduler picks which thread moves next. The channels are unbuffered, so a send and
  its receive are one move.
  \<^item> \<open>SignalMain\<close>: a send on \<^verbatim>\<open>channels[0]\<close>, the channel handed to the main task, meets
    the coordinator's receive.
  \<^item> \<open>ReturnMain\<close>: the main task returns its error to \<^verbatim>\<open>Run\<close>.
  \<^item> \<open>Coordinate\<close>: the coordinator's loop moves: with \<open>i\<close> below the number of
    background tasks it calls \<^verbatim>\<open>this.Logger.Debug2\<close> (a panic when the logger is nil, which
    ends the process) and sends \<^verbatim>\<open>DONE\<close> on \<^verbatim>\<open>channels[i+1]\<close>, received by background task
    \<open>i\<close>; otherwise the loop ends.
  \<^item> \<open>ReturnBackground i\<close>: background task \<open>i\<close> returns its error.
  \<^item> \<open>ReturnRun\<close>: \<^verbatim>\<open>wg.Wait()\<close> returns, all background tasks having returned, and
    \<^verbatim>\<open>Run\<close> returns the main task's error.
  A move that the thread cannot make (it is blocked, or it is elsewhere) leaves the state
  as it is.
\<close>

datatype move = SignalMain | ReturnMain | Coordinate | ReturnBackground nat | ReturnRun

fun all_done :: "background_pc list \<Rightarrow> bool" where
  "all_done [] = True"
| "all_done (b # bs) = (b = BackgroundDone \<and> all_done bs)"

definition step ::
  "bool \<Rightarrow> error option \<Rightarrow> error option list \<Rightarrow> run_state \<Rightarrow> move \<Rightarrow> run_state"
where
  "step has_logger main_err background_errs s m =
    (if crashed s then s
     else case m of
       SignalMain \<Rightarrow>
         (if coordinator s = Receiving
          then s\<lparr>coordinator := Sending 0, history := history s @ [MainSignalled]\<rparr>
          else s)
     | ReturnMain \<Rightarrow>
         (if caller s = InMainTask
          then s\<lparr>caller := InWait, history := history s @ [MainTaskReturned main_err]\<rparr>
          else s)
     | Coordinate \<Rightarrow>
         (case coordinator s of
            Sending i \<Rightarrow>
              (if i < length background_errs
               then (if \<not> has_logger then s\<lparr>crashed := True\<rparr>
                     else if background s ! i = InBackgroundTask
                     then s\<lparr>coordinator := Sending (i + 1), history := history s @ [DoneSent i]\<rparr>
                     else s)
               else s\<lparr>coordinator := Finished\<rparr>)
          | _ \<Rightarrow> s)
     | ReturnBackground i \<Rightarrow>
         (if i < length background_errs \<and> background s ! i = InBackgroundTask
          then s\<lparr>background := (background s)[i := BackgroundDone],
                 history := history s @ [BackgroundTaskReturned i (background_errs ! i)]\<rparr>
          else s)
     | ReturnRun \<Rightarrow>
         (if caller s = InWait \<and> all_done (background s)
          then s\<lparr>caller := Returned main_err, history := history s @ [RunReturned main_err]\<rparr>
          else s))"

text \<open>The state when the goroutines have been started and the main task is called.\<close>

definition tasks_started :: "nat \<Rightarrow> run_state" where
  "tasks_started n =
     \<lparr> caller = InMainTask, coordinator = Receiving,
       background = replicate n InBackgroundTask, crashed = False, history = [] \<rparr>"

text \<open>
  \<^verbatim>\<open>AppInstance.Run\<close> under a schedule: \<open>main_err\<close> is the error the main task returns,
  \<open>background_errs\<close> the errors the background tasks return, one for each task. When a
  \<^verbatim>\<open>Run\<close> hook fails, \<^verbatim>\<open>Run\<close> returns its error and starts nothing.
\<close>

definition AppInstance_Run ::
  "(ModulePtr \<Rightarrow> 'f Module) \<Rightarrow> 'f AppInstance \<Rightarrow> error option \<Rightarrow> error option list
     \<Rightarrow> move list \<Rightarrow> run_state"
where
  "AppInstance_Run heap this main_err background_errs schedule =
    (case run_hooks heap this (modules this) of
       Some err \<Rightarrow>
         \<lparr> caller = Returned (Some err), coordinator = NotStarted, background = [],
           crashed = False, history = [RunReturned (Some err)] \<rparr>
     | None \<Rightarrow>
         foldl (step (Logger this \<noteq> None) main_err background_errs)
           (tasks_started (length background_errs)) schedule)"

text \<open>The value \<^verbatim>\<open>Run\<close> has returned, if it has returned.\<close>

definition run_result :: "run_state \<Rightarrow> error option option" where
  "run_result s = (case caller s of Returned err \<Rightarrow> Some err | _ \<Rightarrow> None)"

text \<open>
  Every \<open>DoneSent\<close> in a history comes after an event that satisfies \<open>trigger\<close>.
\<close>

fun is_DoneSent :: "run_event \<Rightarrow> bool" where
  "is_DoneSent (DoneSent i) = True"
| "is_DoneSent e = False"

fun is_MainSignalled :: "run_event \<Rightarrow> bool" where
  "is_MainSignalled MainSignalled = True"
| "is_MainSignalled e = False"

fun is_MainTaskReturned :: "run_event \<Rightarrow> bool" where
  "is_MainTaskReturned (MainTaskReturned err) = True"
| "is_MainTaskReturned e = False"

fun sends_come_after :: "(run_event \<Rightarrow> bool) \<Rightarrow> run_event list \<Rightarrow> bool" where
  "sends_come_after trigger [] = True"
| "sends_come_after trigger (e # es) =
     (if trigger e then True
      else if is_DoneSent e then False
      else sends_come_after trigger es)"

text \<open>The drivers closed by a record of calls, in the order of the calls.\<close>

fun closed_drivers :: "call list \<Rightarrow> Driver list" where
  "closed_drivers [] = []"
| "closed_drivers (CloseCalled driver # tr) = driver # closed_drivers tr"
| "closed_drivers (c # tr) = closed_drivers tr"

text \<open>The modules whose \<^verbatim>\<open>New\<close> hook a record of calls has called, in the order of the calls.\<close>

fun constructed_modules :: "call list \<Rightarrow> ModulePtr list" where
  "constructed_modules [] = []"
| "constructed_modules (NewCalled module # tr) = module # constructed_modules tr"
| "constructed_modules (c # tr) = constructed_modules tr"

subsection \<open>A small application for concrete evaluations\<close>

text \<open>
  Three modules are registered under the addresses 0, 1 and 2: \<open>logger\<close> has no
  dependency, \<open>bus\<close> requires \<open>logger\<close>, \<open>sensor\<close> requires \<open>bus\<close>. No other name
  resolves.
\<close>

definition example_registry :: "string \<Rightarrow> error + ModulePtr list" where
  "example_registry name =
     (if name = ''logger'' then Inr [0]
      else if name = ''bus'' then Inr [0, 1]
      else if name = ''sensor'' then Inr [0, 1, 2]
      else Inl (Foreign 404))"

text \<open>The drivers: closing the bus driver fails; the others close without error.\<close>

definition logger_driver :: Driver where
  "logger_driver = \<lparr> handle = 1, close_result = None, interfaces = [MODULE_TYPE_LOGGER] \<rparr>"

definition bus_driver :: Driver where
  "bus_driver = \<lparr> handle = 2, close_result = Some (Foreign 9), interfaces = [MODULE_TYPE_I2C] \<rparr>"

definition sensor_driver :: Driver where
  "sensor_driver = \<lparr> handle = 3, close_result = None, interfaces = [] \<rparr>"

definition second_logger_driver :: Driver where
  "second_logger_driver = \<lparr> handle = 4, close_result = None, interfaces = [MODULE_TYPE_LOGGER] \<rparr>"

definition stray_driver :: Driver where
  "stray_driver = \<lparr> handle = 5, close_result = None, interfaces = [] \<rparr>"

text \<open>
  A flag set that only remembers whether it has been parsed; parsing fails on the
  argument \<open>-bogus\<close>; the flags \<open>debug\<close> and \<open>verbose\<close> exist and are false.
\<close>

definition example_api :: "bool FlagsApi" where
  "example_api =
     \<lparr> NewFlags = (\<lambda>name. False),
       FlagBool = (\<lambda>flags name v usage. flags),
       Parsed = (\<lambda>flags. flags),
       Parse = (\<lambda>flags args. (if ''-bogus'' \<in> set args then Some (Foreign 2) else None, True)),
       GetBool = (\<lambda>flags name. (False, name = ''debug'' \<or> name = ''verbose'')),
       FlagsName = (\<lambda>flags. ''example'') \<rparr>"

text \<open>
  The descriptors. Beside the three registered modules there are, at the addresses 3 to
  6: a second module of the logger type; a module whose \<^verbatim>\<open>New\<close> hook returns a driver
  together with an error; a module whose \<^verbatim>\<open>New\<close> hook returns nil and no error; a module
  with no \<^verbatim>\<open>New\<close> hook whose \<^verbatim>\<open>Run\<close> hook fails. The \<^verbatim>\<open>Config\<close> hook of the bus module
  defines a flag.
\<close>

definition plain_module :: "string \<Rightarrow> ModuleType \<Rightarrow> string list \<Rightarrow> bool Module" where
  "plain_module name t requires =
     \<lparr> Name = name, Type = t, Requires = requires, Config = None, New = None, Run = None \<rparr>"

definition example_heap :: "ModulePtr \<Rightarrow> bool Module" where
  "example_heap p =
     (if p = 0 then (plain_module ''logger'' MODULE_TYPE_LOGGER [])
                      \<lparr> New := Some (\<lambda>app. (Some logger_driver, None)) \<rparr>
      else if p = 1 then (plain_module ''bus'' MODULE_TYPE_I2C [''logger''])
                      \<lparr> Config := Some (\<lambda>config. config\<lparr>AppFlags :=
                            map_option (\<lambda>flags. FlagBool example_api flags ''bus.fast'' False ''Fast mode'')
                              (AppFlags config)\<rparr>),
                        New := Some (\<lambda>app. (Some bus_driver, None)) \<rparr>
      else if p = 2 then (plain_module ''sensor'' MODULE_TYPE_OTHER [''bus''])
                      \<lparr> New := Some (\<lambda>app. (Some sensor_driver, None)) \<rparr>
      else if p = 3 then (plain_module ''logger2'' MODULE_TYPE_LOGGER [])
                      \<lparr> New := Some (\<lambda>app. (Some second_logger_driver, None)) \<rparr>
      else if p = 4 then (plain_module ''broken'' MODULE_TYPE_OTHER [])
                      \<lparr> New := Some (\<lambda>app. (Some stray_driver, Some (Foreign 5))) \<rparr>
      else if p = 5 then (plain_module ''empty'' MODULE_TYPE_OTHER [])
                      \<lparr> New := Some (\<lambda>app. (None, None)) \<rparr>
      else if p = 6 then (plain_module ''stopper'' MODULE_TYPE_OTHER [])
                      \<lparr> Run := Some (\<lambda>app driver. Some (Foreign 6)) \<rparr>
      else plain_module [] MODULE_TYPE_NONE [])"

text \<open>The configuration with the given modules and arguments, its flags not yet parsed.\<close>

definition example_config :: "ModulePtr list \<Rightarrow> string list \<Rightarrow> bool AppConfig" where
  "example_config ms args =
     \<lparr> Modules = ms, AppArgs = args, AppFlags = Some False, Debug = False, Verbose = False,
       Service = DEFAULT_RPC_SERVICE \<rparr>"

text \<open>
  The instance after the logger module (address 0) has been registered with its driver.
\<close>

definition one_logger_instance :: "bool AppInstance" where
  "one_logger_instance =
     snd (setModuleInstance example_heap (new_instance example_api (example_config [0, 3] []) True)
            0 logger_driver)"

text \<open>
  The instance after the three registered modules have been constructed and registered
  in order, for a configuration whose module list is \<open>ms\<close>.
\<close>

definition example_instance :: "ModulePtr list \<Rightarrow> bool AppInstance" where
  "example_instance ms =
     snd (setModuleInstance example_heap
       (snd (setModuleInstance example_heap
         (snd (setModuleInstance example_heap
           (new_instance example_api (example_config ms []) True) 0 logger_driver))
         1 bus_driver))
       2 sensor_driver)"

text \<open>
  Two properties of a state of \<^verbatim>\<open>Run\<close> that every move keeps. The first: every \<open>DoneSent\<close>
  of the history comes after a \<open>MainSignalled\<close>, and the coordinator is in its loop only
  when the history has a \<open>MainSignalled\<close>. The second: \<^verbatim>\<open>Run\<close> has not returned, or it
  has returned the main task's error.
\<close>

definition signalled_first :: "run_state \<Rightarrow> bool" where
  "signalled_first s \<longleftrightarrow>
     sends_come_after is_MainSignalled (history s) \<and>
     (\<forall>i. coordinator s = Sending i \<longrightarrow> (\<exists>x\<in>set (history s). is_MainSignalled x))"


section \<open>Properties\<close>

subsection \<open>Module lists without duplicates\<close>

lemma inModules_set: "inModules ms other \<longleftrightarrow> other \<in> set ms"
  by (induction ms) auto

lemma count_appendModules:
  "count_list (appendModules ms others) m =
     (if m \<in> set ms then count_list ms m
      else if m \<in> set others then 1 else 0)"
proof (induction others arbitrary: ms)
  case Nil
  then show ?case by (simp add: count_notin)
next
  case (Cons other others)
  show ?case
  proof (cases "inModules ms other")
    case True
    then show ?thesis using Cons [of ms] by (auto simp: inModules_set)
  next
    case False
    then show ?thesis using Cons [of "ms @ [other]"]
      by (auto simp: inModules_set count_notin)
  qed
qed

lemma set_appendModules: "set (appendModules ms others) = set ms \<union> set others"
  by (induction others arbitrary: ms) (auto simp: inModules_set)

lemma distinct_appendModules: "distinct ms \<Longrightarrow> distinct (appendModules ms others)"
  by (induction others arbitrary: ms) (auto simp: inModules_set)


lemma AppendModulesByName_counts:
  "AppendModulesByName mwd ms names = Inr r \<Longrightarrow>
     (m \<in> set ms \<longrightarrow> count_list r m = count_list ms m) \<and>
     (m \<notin> set ms \<longrightarrow> count_list r m \<le> 1)"
proof (induction names arbitrary: ms)
  case Nil
  then show ?case by (auto simp: count_list_0_iff)
next
  case (Cons name names)
  from Cons.prems obtain arr where arr: "mwd name = Inr arr"
    and rest: "AppendModulesByName mwd (appendModules ms arr) names = Inr r"
    by (auto split: sum.splits)
  from Cons.IH [OF rest] show ?case
    by (auto simp: count_appendModules set_appendModules split: if_splits)
qed


lemma AppendModulesByName_distinct:
  "AppendModulesByName mwd ms names = Inr r \<Longrightarrow> distinct ms \<Longrightarrow> distinct r"
proof (induction names arbitrary: ms)
  case Nil
  then show ?case by simp
next
  case (Cons name names)
  from Cons.prems obtain arr where
    rest: "AppendModulesByName mwd (appendModules ms arr) names = Inr r"
    by (auto split: sum.splits)
  from Cons.IH [OF rest] Cons.prems(2) show ?case by (simp add: distinct_appendModules)
qed

lemma set_AppendModulesByName:
  "AppendModulesByName mwd ms names = Inr r \<Longrightarrow>
     set r = set ms \<union> {m. \<exists>name\<in>set names. \<exists>arr. mwd name = Inr arr \<and> m \<in> set arr}"
proof (induction names arbitrary: ms)
  case Nil
  then show ?case by auto
next
  case (Cons name names)
  from Cons.prems obtain arr where arr: "mwd name = Inr arr"
    and rest: "AppendModulesByName mwd (appendModules ms arr) names = Inr r"
    by (auto split: sum.splits)
  from Cons.IH [OF rest] arr show ?case
    by (auto simp: set_appendModules)
qed

text \<open>
  Claim C7. Appending a module list onto an existing list never adds a module that is
  already present: a module of the existing list keeps the number of occurrences it had,
  and any other module of the appended list occurs exactly once in the result. The same
  holds for the list assembled by name: however often a module is requested (by repeated
  names or as a dependency shared by several names), it occurs once, unless the list given
  at the start already held it, in which case its occurrences there are all there is.
\<close>

theorem requested_module_occurs_once:
  "count_list (appendModules ms others) m =
     (if m \<in> set ms then count_list ms m
      else if m \<in> set others then 1 else 0) \<and>
   (AppendModulesByName mwd ms names = Inr r \<longrightarrow>
      count_list r m =
        (if m \<in> set ms then count_list ms m
         else if \<exists>name\<in>set names. \<exists>arr. mwd name = Inr arr \<and> m \<in> set arr then 1 else 0) \<and>
      (distinct ms \<longrightarrow> distinct r))"
proof (intro conjI impI)
  show "count_list (appendModules ms others) m =
     (if m \<in> set ms then count_list ms m
      else if m \<in> set others then 1 else 0)"
    by (rule count_appendModules)
next
  assume r: "AppendModulesByName mwd ms names = Inr r"
  show "count_list r m =
        (if m \<in> set ms then count_list ms m
         else if \<exists>name\<in>set names. \<exists>arr. mwd name = Inr arr \<and> m \<in> set arr then 1 else 0)"
  proof (cases "m \<in> set ms")
    case True
    with AppendModulesByName_counts [OF r, of m] show ?thesis by simp
  next
    case False
    show ?thesis
    proof (cases "\<exists>name\<in>set names. \<exists>arr. mwd name = Inr arr \<and> m \<in> set arr")
      case True
      with set_AppendModulesByName [OF r] have "m \<in> set r" by blast
      then have "count_list r m \<noteq> 0" by (simp add: count_list_0_iff)
      moreover from AppendModulesByName_counts [OF r, of m] False
      have "count_list r m \<le> 1" by simp
      ultimately have "count_list r m = 1" by arith
      with True False show ?thesis by simp
    next
      case no: False
      with set_AppendModulesByName [OF r] False have "m \<notin> set r" by blast
      then have "count_list r m = 0" by (simp add: count_notin)
      with no False show ?thesis by simp
    qed
  qed
next
  assume "AppendModulesByName mwd ms names = Inr r" and "distinct ms"
  then show "distinct r" by (rule AppendModulesByName_distinct)
qed

theorem requested_module_occurs_once_witness:
  "AppendModulesByName example_registry [0] [''sensor'', ''bus'', ''sensor''] = Inr [0, 1, 2] \<and>
   count_list [0, 1, 2 :: nat] 2 = 1 \<and> count_list [0, 1, 2 :: nat] 0 = 1 \<and>
   distinct [0, 1, 2 :: nat] \<and>
   count_list (appendModules [0] [0, 1, 1]) 1 = 1"
proof -
  have r: "AppendModulesByName example_registry [0] [''sensor'', ''bus'', ''sensor''] = Inr [0, 1, 2]"
    by (simp add: example_registry_def)
  from requested_module_occurs_once
    [of "[0]" "[0, 1, 1]" 1 example_registry "[''sensor'', ''bus'', ''sensor'']" "[0, 1, 2]"] r
  have "count_list (appendModules [0] [0, 1, 1]) 1 = 1" by simp
  with r show ?thesis by simp
qed

subsection \<open>Registering a driver\<close>

lemma set_accessor_tables:
  "byname (snd (set_accessor module t driver this)) = byname this"
  "bytype (snd (set_accessor module t driver this)) = bytype this"
  "byorder (snd (set_accessor module t driver this)) = byorder this"
  by (cases t; simp add: set_accessor_def Let_def)+

lemma set_accessor_error:
  "fst (set_accessor module t driver this) = None \<or>
   fst (set_accessor module t driver this) = Some (CannotCast module t)"
  by (cases t; simp add: set_accessor_def Let_def cast_result_def split: option.splits)

lemma set_accessor_Logger:
  "fst (set_accessor module t driver this) = None \<Longrightarrow> Logger this \<noteq> None \<Longrightarrow>
   Logger (snd (set_accessor module t driver this)) \<noteq> None"
  by (cases t; simp add: set_accessor_def Let_def cast_result_def split: option.splits)

lemma setModuleInstance_duplicate_name:
  "byname this (Name (heap module)) = Some d0 \<Longrightarrow>
   setModuleInstance heap this module driver = (Some (DuplicateName (Name (heap module))), this)"
  by (simp add: setModuleInstance_def)

lemma setModuleInstance_duplicate_type:
  "byname this (Name (heap module)) = None \<Longrightarrow> singleton_type (Type (heap module)) \<Longrightarrow>
   bytype this (Type (heap module)) = Some d0 \<Longrightarrow>
   setModuleInstance heap this module driver =
     (Some (DuplicateType (Type (heap module))),
      this\<lparr>byname := (byname this)(Name (heap module) \<mapsto> driver)\<rparr>)"
  by (simp add: setModuleInstance_def Let_def)

lemma setModuleInstance_registers:
  assumes "byname this (Name (heap module)) = None"
    and "\<not> (singleton_type (Type (heap module)) \<and> bytype this (Type (heap module)) \<noteq> None)"
  shows "byorder (snd (setModuleInstance heap this module driver)) = byorder this @ [driver]"
    and "fst (setModuleInstance heap this module driver) = None \<or>
         fst (setModuleInstance heap this module driver) =
           Some (CannotCast module (Type (heap module)))"
    and "byname (snd (setModuleInstance heap this module driver)) =
           (byname this)(Name (heap module) \<mapsto> driver)"
    and "bytype (snd (setModuleInstance heap this module driver)) =
           (if singleton_type (Type (heap module))
            then (bytype this)(Type (heap module) \<mapsto> driver) else bytype this)"
  using assms set_accessor_error
  by (auto simp: setModuleInstance_def Let_def set_accessor_tables)

lemma setModuleInstance_Logger:
  assumes "setModuleInstance heap this module driver = (None, this')" and "Logger this \<noteq> None"
  shows "Logger this' \<noteq> None"
proof -
  let ?t = "Type (heap module)"
  let ?this1 = "this\<lparr>byname := (byname this)(Name (heap module) \<mapsto> driver)\<rparr>"
  let ?this2 = "if singleton_type ?t then ?this1\<lparr>bytype := (bytype ?this1)(?t \<mapsto> driver)\<rparr>
                else ?this1"
  let ?this3 = "?this2\<lparr>byorder := byorder ?this2 @ [driver]\<rparr>"
  from assms(1) have eq: "set_accessor module ?t driver ?this3 = (None, this')"
    by (simp add: setModuleInstance_def Let_def split: option.splits if_splits)
  from assms(2) have "Logger ?this3 \<noteq> None" by simp
  with set_accessor_Logger [of module ?t driver ?this3] eq show ?thesis by simp
qed

lemma setModuleInstance_keeps_bytype:
  assumes "bytype this t' = Some d"
  shows "bytype (snd (setModuleInstance heap this module driver)) t' = Some d"
proof (cases "byname this (Name (heap module))")
  case (Some d0)
  with assms show ?thesis by (simp add: setModuleInstance_duplicate_name)
next
  case None
  show ?thesis
  proof (cases "singleton_type (Type (heap module)) \<and> bytype this (Type (heap module)) \<noteq> None")
    case True
    then obtain d0 where "bytype this (Type (heap module)) = Some d0" by auto
    with None True assms show ?thesis by (simp add: setModuleInstance_duplicate_type)
  next
    case False
    from None False
    have "bytype (snd (setModuleInstance heap this module driver)) =
           (if singleton_type (Type (heap module))
            then (bytype this)(Type (heap module) \<mapsto> driver) else bytype this)"
      by (rule setModuleInstance_registers(4))
    with assms False show ?thesis by auto
  qed
qed

lemmas example_defs = example_heap_def plain_module_def example_api_def example_config_def
  new_instance_def logger_driver_def bus_driver_def sensor_driver_def second_logger_driver_def
  stray_driver_def DEFAULT_RPC_SERVICE_def

lemmas register_defs = setModuleInstance_def set_accessor_def singleton_type_def assert_to_def
  cast_result_def Let_def

lemma one_logger_instance_tables:
  "byname one_logger_instance = [''logger'' \<mapsto> logger_driver]"
  "bytype one_logger_instance = [MODULE_TYPE_LOGGER \<mapsto> logger_driver]"
  "byorder one_logger_instance = [logger_driver]"
  "Logger one_logger_instance = Some logger_driver"
  by (simp_all add: one_logger_instance_def example_defs register_defs)




text \<open>
  Claim C4, as stated: a second module of an occupied singleton type fails with the
  duplicate-type error and leaves the by-name map, the by-type map and the creation-order
  list as they were. It fails for the by-name map: the second logger module gets the
  duplicate-type error, and its driver is then registered under its name.
\<close>

theorem duplicate_type_changes_byname:
  "fst (setModuleInstance example_heap one_logger_instance 3 second_logger_driver) =
     Some (DuplicateType MODULE_TYPE_LOGGER) \<and>
   byname one_logger_instance ''logger2'' = None \<and>
   byname (snd (setModuleInstance example_heap one_logger_instance 3 second_logger_driver)) ''logger2''
     = Some second_logger_driver"
  by (simp add: register_defs one_logger_instance_tables example_defs)

text \<open>
  Claim C4, amended. \<^verbatim>\<open>setModuleInstance\<close> never replaces the driver of an occupied
  module type. Registering a module of a singleton type that is already occupied fails:
  with the duplicate-type error when the module's name is free, and then the by-name map
  has gained the entry of the new module's name, its other entries being as before; with
  the duplicate-name error when the name is taken, and then the instance is as before. In
  both cases the by-type map and the creation-order list are unchanged.
\<close>

theorem occupied_singleton_type_rejected:
  "(bytype this t' = Some d \<longrightarrow>
      bytype (snd (setModuleInstance heap this module driver)) t' = Some d) \<and>
   (singleton_type (Type (heap module)) \<and> bytype this (Type (heap module)) \<noteq> None \<longrightarrow>
      (if byname this (Name (heap module)) = None
       then setModuleInstance heap this module driver =
              (Some (DuplicateType (Type (heap module))),
               this\<lparr>byname := (byname this)(Name (heap module) \<mapsto> driver)\<rparr>)
       else setModuleInstance heap this module driver =
              (Some (DuplicateName (Name (heap module))), this)) \<and>
      bytype (snd (setModuleInstance heap this module driver)) = bytype this \<and>
      byorder (snd (setModuleInstance heap this module driver)) = byorder this \<and>
      (byname this name \<noteq> None \<longrightarrow>
         byname (snd (setModuleInstance heap this module driver)) name = byname this name))"
proof (intro conjI impI)
  assume "bytype this t' = Some d"
  then show "bytype (snd (setModuleInstance heap this module driver)) t' = Some d"
    by (rule setModuleInstance_keeps_bytype)
next
  assume a: "singleton_type (Type (heap module)) \<and> bytype this (Type (heap module)) \<noteq> None"
  then obtain d0 where d0: "bytype this (Type (heap module)) = Some d0" by auto
  show r: "if byname this (Name (heap module)) = None
       then setModuleInstance heap this module driver =
              (Some (DuplicateType (Type (heap module))),
               this\<lparr>byname := (byname this)(Name (heap module) \<mapsto> driver)\<rparr>)
       else setModuleInstance heap this module driver =
              (Some (DuplicateName (Name (heap module))), this)"
    using a d0 setModuleInstance_duplicate_name [of this heap module _ driver]
    by (auto simp: setModuleInstance_duplicate_type)
  from r show "bytype (snd (setModuleInstance heap this module driver)) = bytype this"
    by (simp split: if_splits)
  from r show "byorder (snd (setModuleInstance heap this module driver)) = byorder this"
    by (simp split: if_splits)
  assume "byname this name \<noteq> None"
  with r show "byname (snd (setModuleInstance heap this module driver)) name = byname this name"
    by (auto split: if_splits)
qed

theorem occupied_singleton_type_rejected_witness:
  "singleton_type (Type (example_heap 3)) \<and>
   bytype one_logger_instance (Type (example_heap 3)) \<noteq> None \<and>
   byname one_logger_instance (Name (example_heap 3)) = None \<and>
   byname one_logger_instance ''logger'' \<noteq> None \<and>
   setModuleInstance example_heap one_logger_instance 3 second_logger_driver =
     (Some (DuplicateType MODULE_TYPE_LOGGER),
      one_logger_instance\<lparr>byname := (byname one_logger_instance)(''logger2'' \<mapsto> second_logger_driver)\<rparr>) \<and>
   bytype (snd (setModuleInstance example_heap one_logger_instance 3 second_logger_driver)) =
     bytype one_logger_instance \<and>
   byorder (snd (setModuleInstance example_heap one_logger_instance 3 second_logger_driver)) =
     [logger_driver] \<and>
   byname (snd (setModuleInstance example_heap one_logger_instance 3 second_logger_driver)) ''logger'' =
     Some logger_driver"
proof -
  have h: "singleton_type (Type (example_heap 3)) \<and>
     bytype one_logger_instance (Type (example_heap 3)) \<noteq> None \<and>
     byname one_logger_instance (Name (example_heap 3)) = None \<and>
     byname one_logger_instance ''logger'' \<noteq> None"
    by (simp add: one_logger_instance_tables example_defs singleton_type_def)
  have n: "Name (example_heap 3) = ''logger2''" "Type (example_heap 3) = MODULE_TYPE_LOGGER"
    by (simp_all add: example_defs)
  from h occupied_singleton_type_rejected
    [of one_logger_instance MODULE_TYPE_LOGGER logger_driver example_heap 3 second_logger_driver
        "''logger''"]
  show ?thesis by (simp add: n one_logger_instance_tables)
qed


subsection \<open>Building the instance\<close>

lemma construct_modules_append:
  "construct_modules heap pre this once tr = (Return (Inr (this1, once1)), tr1) \<Longrightarrow>
   construct_modules heap (pre @ post) this once tr = construct_modules heap post this1 once1 tr1"
proof (induction pre arbitrary: this once tr)
  case Nil
  then show ?case by simp
next
  case (Cons module pre)
  show ?case
  proof (cases "New (heap module)")
    case None
    with Cons.prems
    have "construct_modules heap pre this (once \<or> Logger this \<noteq> None) tr =
            (Return (Inr (this1, once1)), tr1)"
      by simp
    from Cons.IH [OF this] None show ?thesis by simp
  next
    case (Some new)
    with Cons.prems obtain driver this' where new: "new this = (Some driver, None)"
      and set: "setModuleInstance heap this module driver = (None, this')"
      and rest: "construct_modules heap pre this' (once \<or> Logger this \<noteq> None)
                   (tr @ [NewCalled module]) = (Return (Inr (this1, once1)), tr1)"
      by (auto simp: Let_def split: prod.splits option.splits)
    from Cons.IH [OF rest] Some new set show ?thesis by simp
  qed
qed

lemma construct_modules_success:
  "construct_modules heap ms this once tr = (Return (Inr (this1, once1)), tr1) \<Longrightarrow>
   tr1 = tr @ map NewCalled (filter (\<lambda>m. New (heap m) \<noteq> None) ms) \<and>
   ((once \<longrightarrow> Logger this \<noteq> None) \<longrightarrow> (once1 \<longrightarrow> Logger this1 \<noteq> None)) \<and>
   (Logger this \<noteq> None \<longrightarrow> Logger this1 \<noteq> None)"
proof (induction ms arbitrary: this once tr)
  case Nil
  then show ?case by auto
next
  case (Cons module ms)
  show ?case
  proof (cases "New (heap module)")
    case None
    with Cons.prems
    have "construct_modules heap ms this (once \<or> Logger this \<noteq> None) tr =
            (Return (Inr (this1, once1)), tr1)"
      by simp
    from Cons.IH [OF this] None show ?thesis by auto
  next
    case (Some new)
    with Cons.prems obtain driver this' where new: "new this = (Some driver, None)"
      and set: "setModuleInstance heap this module driver = (None, this')"
      and rest: "construct_modules heap ms this' (once \<or> Logger this \<noteq> None)
                   (tr @ [NewCalled module]) = (Return (Inr (this1, once1)), tr1)"
      by (auto simp: Let_def split: prod.splits option.splits)
    from setModuleInstance_Logger [OF set] have keep: "Logger this \<noteq> None \<Longrightarrow> Logger this' \<noteq> None" .
    from Cons.IH [OF rest] Some keep show ?thesis by auto
  qed
qed

lemma closed_drivers_append: "closed_drivers (a @ b) = closed_drivers a @ closed_drivers b"
  by (induction a rule: closed_drivers.induct) auto

lemma closed_drivers_NewCalled: "closed_drivers (map NewCalled ms) = []"
  by (induction ms) auto

lemma constructed_modules_append:
  "constructed_modules (a @ b) = constructed_modules a @ constructed_modules b"
  by (induction a rule: constructed_modules.induct) auto

lemma NewAppInstance_Logger:
  assumes "NewAppInstance api heap config tr = (Return (Inr this), tr1)"
  shows "Logger this \<noteq> None"
proof -
  from assms obtain flags1 once where
    c: "construct_modules heap (Modules config) (new_instance api config flags1) False tr =
          (Return (Inr (this, once)), tr1)"
    and g: "\<not> (\<not> once \<and> Logger this = None)"
    by (auto simp: NewAppInstance_def split: option.splits prod.splits outcome.splits sum.splits if_splits)
  from construct_modules_success [OF c] have "once \<longrightarrow> Logger this \<noteq> None" by simp
  with g show ?thesis by auto
qed

lemma NewAppInstance_loop:
  assumes "AppFlags config = Some flags"
    and "(if Parsed api flags = False then Parse api flags (AppArgs config) else (None, flags)) =
           (None, flags1)"
  shows "NewAppInstance api heap config tr =
          (case construct_modules heap (Modules config) (new_instance api config flags1) False tr of
             (Return (Inl err), tr') \<Rightarrow> (Return (Inl err), tr')
           | (Panic, tr') \<Rightarrow> (Panic, tr')
           | (Return (Inr (this, once)), tr') \<Rightarrow>
               (if \<not> once \<and> Logger this = None then (Panic, tr')
                else (Return (Inr this), tr')))"
  using assms unfolding NewAppInstance_def by simp

lemma example_instance_fields:
  "byorder (example_instance ms) = [logger_driver, bus_driver, sensor_driver]"
  "Logger (example_instance ms) = Some logger_driver"
  "modules (example_instance ms) = ms"
  "byname (example_instance ms) =
     [''logger'' \<mapsto> logger_driver, ''bus'' \<mapsto> bus_driver, ''sensor'' \<mapsto> sensor_driver]"
  by (simp_all add: example_instance_def example_defs register_defs)

lemma NewAppInstance_example:
  "NewAppInstance example_api example_heap (example_config [0, 1, 2] []) [] =
     (Return (Inr (example_instance [0, 1, 2])), [NewCalled 0, NewCalled 1, NewCalled 2])"
  by (simp add: NewAppInstance_def example_instance_def example_defs register_defs)

lemma NewAppInstance_example_stopper:
  "NewAppInstance example_api example_heap (example_config [0, 1, 2, 6] []) [] =
     (Return (Inr (example_instance [0, 1, 2, 6])), [NewCalled 0, NewCalled 1, NewCalled 2])"
  by (simp add: NewAppInstance_def example_instance_def example_defs register_defs)

text \<open>
  Claim C8. When the flags have not been parsed and parsing the configuration's arguments
  fails, \<^verbatim>\<open>NewAppInstance\<close> returns that error and the record of calls is as it was: no
  \<^verbatim>\<open>New\<close> hook has been called, so no driver has been constructed.
\<close>

theorem parse_failure_constructs_nothing:
  assumes "AppFlags config = Some flags" and "Parsed api flags = False"
    and "fst (Parse api flags (AppArgs config)) = Some err"
  shows "NewAppInstance api heap config tr = (Return (Inl err), tr)"
proof (cases "Parse api flags (AppArgs config)")
  case (Pair perr flags1)
  with assms show ?thesis by (simp add: NewAppInstance_def)
qed

theorem parse_failure_constructs_nothing_witness:
  "AppFlags (example_config [0, 1, 2] [''-bogus'']) = Some False \<and>
   Parsed example_api False = False \<and>
   fst (Parse example_api False (AppArgs (example_config [0, 1, 2] [''-bogus'']))) = Some (Foreign 2) \<and>
   NewAppInstance example_api example_heap (example_config [0, 1, 2] [''-bogus'']) [] =
     (Return (Inl (Foreign 2)), []) \<and>
   constructed_modules
     (snd (NewAppInstance example_api example_heap (example_config [0, 1, 2] [''-bogus'']) [])) = []"
proof -
  have h: "AppFlags (example_config [0, 1, 2] [''-bogus'']) = Some False"
    "Parsed example_api False = False"
    "fst (Parse example_api False (AppArgs (example_config [0, 1, 2] [''-bogus'']))) = Some (Foreign 2)"
    by (simp_all add: example_config_def example_api_def)
  from parse_failure_constructs_nothing [OF h, of example_heap "[]"] h
  show ?thesis by simp
qed

text \<open>
  Claim C9. When the modules before \<open>module\<close> have been constructed and registered
  and the \<^verbatim>\<open>New\<close> hook of \<open>module\<close> returns a nil driver and a nil error,
  \<^verbatim>\<open>NewAppInstance\<close> returns no instance but the error that names the module; the hook
  of no later module is called.
\<close>

theorem nil_driver_fails_build:
  assumes "AppFlags config = Some flags"
    and "(if Parsed api flags = False then Parse api flags (AppArgs config) else (None, flags)) =
           (None, flags1)"
    and "Modules config = pre @ module # post"
    and "construct_modules heap pre (new_instance api config flags1) False tr =
           (Return (Inr (this, once)), tr1)"
    and "New (heap module) = Some new"
    and "new this = (None, None)"
  shows "NewAppInstance api heap config tr =
           (Return (Inl (NewReturnNil (Name (heap module)))), tr1 @ [NewCalled module])"
proof -
  have "construct_modules heap (pre @ module # post) (new_instance api config flags1) False tr =
          construct_modules heap (module # post) this once tr1"
    using assms(4) by (rule construct_modules_append)
  also have "\<dots> = (Return (Inl (NewReturnNil (Name (heap module)))), tr1 @ [NewCalled module])"
    using assms(5,6) by (simp add: Let_def)
  finally show ?thesis
    using NewAppInstance_loop [OF assms(1,2), of heap tr] assms(3) by simp
qed

theorem nil_driver_fails_build_witness:
  "NewAppInstance example_api example_heap (example_config [0, 1, 5, 2] []) [] =
     (Return (Inl (NewReturnNil ''empty'')), [NewCalled 0, NewCalled 1, NewCalled 5])"
proof -
  let ?config = "example_config [0, 1, 5, 2] []"
  let ?built = "snd (setModuleInstance example_heap
       (snd (setModuleInstance example_heap (new_instance example_api ?config True) 0 logger_driver))
       1 bus_driver)"
  have 1: "AppFlags ?config = Some False" by (simp add: example_config_def)
  have 2: "(if Parsed example_api False = False then Parse example_api False (AppArgs ?config)
            else (None, False)) = (None, True)"
    by (simp add: example_config_def example_api_def)
  have 3: "Modules ?config = [0, 1] @ 5 # [2]" by (simp add: example_config_def)
  have 4: "construct_modules example_heap [0, 1] (new_instance example_api ?config True) False [] =
             (Return (Inr (?built, True)), [NewCalled 0, NewCalled 1])"
    by (simp add: example_defs register_defs)
  have 5: "New (example_heap 5) = Some (\<lambda>app. (None, None))"
    by (simp add: example_defs)
  have 6: "(\<lambda>app. (None :: Driver option, None :: error option)) ?built = (None, None)"
    by simp
  have 7: "Name (example_heap 5) = ''empty''" by (simp add: example_defs)
  from nil_driver_fails_build [OF 1 2 3 4 5 6] 7 show ?thesis by simp
qed

text \<open>
  Claim C5, as stated: when a construct hook fails, the builder closes the failed
  module's driver if one was returned. It fails: the \<^verbatim>\<open>New\<close> hook of module 4 returns a
  driver together with an error; the build returns the error and has closed no driver.
\<close>

theorem hook_failure_leaves_returned_driver_open:
  "New (example_heap 4) = Some (\<lambda>app. (Some stray_driver, Some (Foreign 5))) \<and>
   NewAppInstance example_api example_heap (example_config [0, 1, 4, 2] []) [] =
     (Return (Inl (Foreign 5)), [NewCalled 0, NewCalled 1, NewCalled 4]) \<and>
   stray_driver \<notin> set (closed_drivers [NewCalled 0, NewCalled 1, NewCalled 4])"
  by (simp add: NewAppInstance_def example_defs register_defs)

text \<open>
  Claim C5, amended. When the modules before \<open>module\<close> have been constructed and
  registered and the \<^verbatim>\<open>New\<close> hook of \<open>module\<close> returns an error, \<^verbatim>\<open>NewAppInstance\<close>
  returns that error at once (the hook of no later module is called) and the builder has
  closed no driver: neither a driver returned together with the error nor one constructed
  before.
\<close>

theorem hook_failure_closes_nothing:
  assumes "AppFlags config = Some flags"
    and "(if Parsed api flags = False then Parse api flags (AppArgs config) else (None, flags)) =
           (None, flags1)"
    and "Modules config = pre @ module # post"
    and "construct_modules heap pre (new_instance api config flags1) False tr =
           (Return (Inr (this, once)), tr1)"
    and "New (heap module) = Some new"
    and "new this = (returned, Some err)"
  shows "NewAppInstance api heap config tr = (Return (Inl err), tr1 @ [NewCalled module]) \<and>
         closed_drivers (tr1 @ [NewCalled module]) = closed_drivers tr"
proof -
  have "construct_modules heap (pre @ module # post) (new_instance api config flags1) False tr =
          construct_modules heap (module # post) this once tr1"
    using assms(4) by (rule construct_modules_append)
  also have "\<dots> = (Return (Inl err), tr1 @ [NewCalled module])"
    using assms(5,6) by (cases returned) (simp_all add: Let_def)
  finally have "NewAppInstance api heap config tr = (Return (Inl err), tr1 @ [NewCalled module])"
    using NewAppInstance_loop [OF assms(1,2), of heap tr] assms(3) by simp
  moreover from construct_modules_success [OF assms(4)]
  have "closed_drivers (tr1 @ [NewCalled module]) = closed_drivers tr"
    by (simp add: closed_drivers_append closed_drivers_NewCalled)
  ultimately show ?thesis by simp
qed

theorem hook_failure_closes_nothing_witness:
  "NewAppInstance example_api example_heap (example_config [0, 1, 4, 2] []) [] =
     (Return (Inl (Foreign 5)), [NewCalled 0, NewCalled 1, NewCalled 4]) \<and>
   closed_drivers [NewCalled 0, NewCalled 1, NewCalled 4] = closed_drivers []"
proof -
  let ?config = "example_config [0, 1, 4, 2] []"
  let ?built = "snd (setModuleInstance example_heap
       (snd (setModuleInstance example_heap (new_instance example_api ?config True) 0 logger_driver))
       1 bus_driver)"
  have 1: "AppFlags ?config = Some False" by (simp add: example_config_def)
  have 2: "(if Parsed example_api False = False then Parse example_api False (AppArgs ?config)
            else (None, False)) = (None, True)"
    by (simp add: example_config_def example_api_def)
  have 3: "Modules ?config = [0, 1] @ 4 # [2]" by (simp add: example_config_def)
  have 4: "construct_modules example_heap [0, 1] (new_instance example_api ?config True) False [] =
             (Return (Inr (?built, True)), [NewCalled 0, NewCalled 1])"
    by (simp add: example_defs register_defs)
  have 5: "New (example_heap 4) = Some (\<lambda>app. (Some stray_driver, Some (Foreign 5)))"
    by (simp add: example_defs)
  have 6: "(\<lambda>app. (Some stray_driver, Some (Foreign 5))) ?built = (Some stray_driver, Some (Foreign 5))"
    by simp
  from hook_failure_closes_nothing [OF 1 2 3 4 5 6] show ?thesis by simp
qed

subsection \<open>Teardown\<close>

lemma closed_drivers_close_drivers:
  "n \<le> length drivers \<Longrightarrow>
   closed_drivers (close_drivers n drivers tr) = closed_drivers tr @ rev (take n drivers)"
proof (induction n arbitrary: tr)
  case 0
  then show ?case by simp
next
  case (Suc n)
  then have n: "n < length drivers" by simp
  from Suc.IH [of "tr @ CloseCalled (drivers ! n) #
          (case close_result (drivers ! n) of None \<Rightarrow> [] | Some err \<Rightarrow> [ErrorLogged err])"] n
  show ?case
    by (simp add: Let_def closed_drivers_append take_Suc_conv_app_nth split: option.splits)
qed

lemma constructed_modules_close_drivers:
  "constructed_modules (close_drivers n drivers tr) = constructed_modules tr"
proof (induction n arbitrary: tr)
  case 0
  then show ?case by simp
next
  case (Suc n)
  show ?case
    by (simp add: Suc Let_def constructed_modules_append split: option.splits)
qed

text \<open>
  Claim C1. \<^verbatim>\<open>Close\<close> on an instance with a logger (every instance \<^verbatim>\<open>NewAppInstance\<close>
  returns has one, by \<open>NewAppInstance_Logger\<close>) returns nil, and the drivers it closes
  are those of the creation-order list, each position once, last created first, whatever
  the \<^verbatim>\<open>Close\<close> of each driver returns; the tables are empty afterwards.
\<close>

theorem teardown_closes_in_reverse_order:
  assumes "Logger this \<noteq> None"
  shows "fst (AppInstance_Close this tr) = Return None \<and>
         closed_drivers (snd (snd (AppInstance_Close this tr))) =
           closed_drivers tr @ rev (byorder this) \<and>
         byorder (fst (snd (AppInstance_Close this tr))) = [] \<and>
         byname (fst (snd (AppInstance_Close this tr))) = Map.empty \<and>
         bytype (fst (snd (AppInstance_Close this tr))) = Map.empty"
  using assms closed_drivers_close_drivers [of "length (byorder this)" "byorder this" tr]
  by (auto simp: AppInstance_Close_def)

theorem teardown_closes_in_reverse_order_witness:
  "Logger (example_instance [0, 1, 2]) \<noteq> None \<and>
   close_result bus_driver \<noteq> None \<and>
   fst (AppInstance_Close (example_instance [0, 1, 2]) []) = Return None \<and>
   closed_drivers (snd (snd (AppInstance_Close (example_instance [0, 1, 2]) []))) =
     [sensor_driver, bus_driver, logger_driver]"
proof -
  have h: "Logger (example_instance [0, 1, 2]) \<noteq> None"
    by (simp add: example_instance_fields)
  from teardown_closes_in_reverse_order [OF h, of "[]"] h
  show ?thesis by (simp add: example_instance_fields bus_driver_def)
qed


subsection \<open>Running the tasks\<close>

lemma sends_come_after_snoc:
  "sends_come_after trigger h \<Longrightarrow> (is_DoneSent e \<longrightarrow> (\<exists>x\<in>set h. trigger x)) \<Longrightarrow>
   sends_come_after trigger (h @ [e])"
  by (induction h) (auto split: if_splits)

lemma signalled_first_step:
  assumes "signalled_first s"
  shows "signalled_first (step has_logger main_err background_errs s m)"
proof (cases "crashed s")
  case True
  with assms show ?thesis by (simp add: step_def)
next
  case False
  show ?thesis
  proof (cases m)
    case SignalMain
    with assms False show ?thesis
      by (auto simp: step_def signalled_first_def intro: sends_come_after_snoc)
  next
    case ReturnMain
    with assms False show ?thesis
      by (auto simp: step_def signalled_first_def intro: sends_come_after_snoc)
  next
    case Coordinate
    with assms False show ?thesis
      by (cases "coordinator s")
         (auto simp: step_def signalled_first_def intro: sends_come_after_snoc)
  next
    case (ReturnBackground i)
    with assms False show ?thesis
      by (auto simp: step_def signalled_first_def intro: sends_come_after_snoc)
  next
    case ReturnRun
    with assms False show ?thesis
      by (auto simp: step_def signalled_first_def intro: sends_come_after_snoc)
  qed
qed

lemma signalled_first_schedule:
  "signalled_first s \<Longrightarrow>
   signalled_first (foldl (step has_logger main_err background_errs) s schedule)"
  by (induction schedule arbitrary: s) (auto intro: signalled_first_step)

lemma run_hooks_example:
  "run_hooks example_heap (example_instance [0, 1, 2]) (modules (example_instance [0, 1, 2])) = None"
  by (simp add: example_instance_fields(3) example_heap_def plain_module_def)


lemma Run_example:
  "AppInstance_Run example_heap (example_instance [0, 1, 2]) main_err background_errs schedule =
     foldl (step True main_err background_errs) (tasks_started (length background_errs)) schedule"
  unfolding AppInstance_Run_def run_hooks_example by (simp add: example_instance_fields(2))


lemmas run_defs = step_def tasks_started_def run_result_def






text \<open>
  Claim C2, as stated: every send of \<^verbatim>\<open>DONE\<close> to a background task comes after the main
  task has returned. It fails: the coordinator waits for a send on the main task's channel,
  not for the main task's return. With one background task, once the main task has sent
  on its channel the coordinator sends \<^verbatim>\<open>DONE\<close> to the background task while the main task
  has not returned.
\<close>

theorem done_sent_before_main_returns:
  "\<not> sends_come_after is_MainTaskReturned
       (history (AppInstance_Run example_heap (example_instance [0, 1, 2]) None [None]
                   [SignalMain, Coordinate])) \<and>
   history (AppInstance_Run example_heap (example_instance [0, 1, 2]) None [None]
              [SignalMain, Coordinate]) = [MainSignalled, DoneSent 0]"
  unfolding Run_example by (simp add: run_defs)

text \<open>
  Claim C2, amended. Under every schedule, every send of \<^verbatim>\<open>DONE\<close> to a background task
  comes after a send on the main task's own channel (\<^verbatim>\<open>channels[0]\<close>) has been received
  by the coordinator.
\<close>

theorem done_sent_after_main_signal:
  "sends_come_after is_MainSignalled
     (history (AppInstance_Run heap this main_err background_errs schedule))"
proof (cases "run_hooks heap this (modules this)")
  case (Some err)
  then show ?thesis by (simp add: AppInstance_Run_def)
next
  case None
  have "signalled_first (tasks_started (length background_errs))"
    by (simp add: signalled_first_def tasks_started_def)
  from signalled_first_schedule [OF this] None show ?thesis
    by (simp add: AppInstance_Run_def signalled_first_def)
qed

theorem done_sent_after_main_signal_witness:
  "history (AppInstance_Run example_heap (example_instance [0, 1, 2]) None [None]
              [SignalMain, Coordinate, ReturnMain]) =
     [MainSignalled, DoneSent 0, MainTaskReturned None] \<and>
   sends_come_after is_MainSignalled [MainSignalled, DoneSent 0, MainTaskReturned None]"
proof -
  have h: "history (AppInstance_Run example_heap (example_instance [0, 1, 2]) None [None]
              [SignalMain, Coordinate, ReturnMain]) =
     [MainSignalled, DoneSent 0, MainTaskReturned None]"
    unfolding Run_example by (simp add: run_defs)
  from done_sent_after_main_signal [of example_heap "example_instance [0, 1, 2]" None "[None]"
      "[SignalMain, Coordinate, ReturnMain]"]
  show ?thesis unfolding h by simp
qed





subsection \<open>Building the configuration\<close>






end
